theory Spec2Isabelle
  imports Complex_Main "HOL-Library.AList"
begin

section \<open>JavaScript values\<close>

text \<open>
  Numbers. A JavaScript number is an IEEE double; the embedding keeps the three
  non-finite values and idealises the finite ones as reals: no rounding, no overflow
  and no negative zero. Division by zero therefore yields an infinity or NaN, as in
  the language, and never an error.
\<close>

datatype jsnum = Fin real | PInf | NInf | NaN

text \<open>
  Values as \<^verbatim>\<open>JSON.parse\<close> produces them, plus \<^verbatim>\<open>undefined\<close>. An object is
  the list of its own enumerable properties in enumeration order (keys distinct).
\<close>

datatype jsval =
    JUndefined
  | JNull
  | JBool bool
  | JNum jsnum
  | JStr string
  | JArr "jsval list"
  | JObj "(string \<times> jsval) list"

type_synonym props = "(string \<times> jsval) list"

subsection \<open>Arithmetic on numbers\<close>

fun num_less :: "jsnum \<Rightarrow> jsnum \<Rightarrow> bool" where
  "num_less (Fin a) (Fin b) = (a < b)"
| "num_less NInf (Fin b) = True"
| "num_less NInf PInf = True"
| "num_less (Fin a) PInf = True"
| "num_less _ _ = False"

fun num_div :: "jsnum \<Rightarrow> jsnum \<Rightarrow> jsnum" where
  "num_div (Fin a) (Fin b) =
     (if b \<noteq> 0 then Fin (a / b)
      else if a = 0 then NaN else if 0 < a then PInf else NInf)"
| "num_div (Fin a) PInf = Fin 0"
| "num_div (Fin a) NInf = Fin 0"
| "num_div PInf (Fin b) = (if 0 \<le> b then PInf else NInf)"
| "num_div NInf (Fin b) = (if 0 \<le> b then NInf else PInf)"
| "num_div _ _ = NaN"

fun num_mul :: "jsnum \<Rightarrow> jsnum \<Rightarrow> jsnum" where
  "num_mul (Fin a) (Fin b) = Fin (a * b)"
| "num_mul PInf (Fin b) = (if 0 < b then PInf else if b < 0 then NInf else NaN)"
| "num_mul NInf (Fin b) = (if 0 < b then NInf else if b < 0 then PInf else NaN)"
| "num_mul (Fin a) PInf = (if 0 < a then PInf else if a < 0 then NInf else NaN)"
| "num_mul (Fin a) NInf = (if 0 < a then NInf else if a < 0 then PInf else NaN)"
| "num_mul PInf PInf = PInf"
| "num_mul NInf NInf = PInf"
| "num_mul PInf NInf = NInf"
| "num_mul NInf PInf = NInf"
| "num_mul _ _ = NaN"

fun num_add :: "jsnum \<Rightarrow> jsnum \<Rightarrow> jsnum" where
  "num_add (Fin a) (Fin b) = Fin (a + b)"
| "num_add NaN _ = NaN"
| "num_add _ NaN = NaN"
| "num_add PInf NInf = NaN"
| "num_add NInf PInf = NaN"
| "num_add PInf _ = PInf"
| "num_add _ PInf = PInf"
| "num_add NInf _ = NInf"
| "num_add _ NInf = NInf"

fun num_floor :: "jsnum \<Rightarrow> jsnum" where
  "num_floor (Fin a) = Fin (of_int \<lfloor>a\<rfloor>)"
| "num_floor n = n"

text \<open>\<^verbatim>\<open>Math.max(...xs)\<close>: minus infinity on no arguments, NaN as soon as one is NaN.\<close>

fun num_max2 :: "jsnum \<Rightarrow> jsnum \<Rightarrow> jsnum" where
  "num_max2 NaN _ = NaN"
| "num_max2 _ NaN = NaN"
| "num_max2 a b = (if num_less a b then b else a)"

definition Math_max :: "jsnum list \<Rightarrow> jsnum" where
  "Math_max xs = foldl num_max2 NInf xs"

subsection \<open>Operators on values\<close>

text \<open>
  \<^verbatim>\<open>ToNumber\<close> on the primitives. Strings, arrays and objects in a numeric position
  (string comparison and concatenation, \<^verbatim>\<open>ToPrimitive\<close>) lie outside the embedded
  fragment: every operator below answers \<open>None\<close> on them.
\<close>

fun ToNumber :: "jsval \<Rightarrow> jsnum option" where
  "ToNumber JUndefined = Some NaN"
| "ToNumber JNull = Some (Fin 0)"
| "ToNumber (JBool b) = Some (Fin (if b then 1 else 0))"
| "ToNumber (JNum n) = Some n"
| "ToNumber _ = None"

definition arith :: "(jsnum \<Rightarrow> jsnum \<Rightarrow> 'a) \<Rightarrow> jsval \<Rightarrow> jsval \<Rightarrow> 'a option" where
  "arith f a b =
     (case ToNumber a of None \<Rightarrow> None
      | Some x \<Rightarrow> (case ToNumber b of None \<Rightarrow> None | Some y \<Rightarrow> Some (f x y)))"

definition js_lt :: "jsval \<Rightarrow> jsval \<Rightarrow> bool option" where
  "js_lt a b = arith num_less a b"

definition js_gt :: "jsval \<Rightarrow> jsval \<Rightarrow> bool option" where
  "js_gt a b = arith (\<lambda>x y. num_less y x) a b"

definition js_div :: "jsval \<Rightarrow> jsval \<Rightarrow> jsval option" where
  "js_div a b = arith (\<lambda>x y. JNum (num_div x y)) a b"

definition js_mul :: "jsval \<Rightarrow> jsval \<Rightarrow> jsval option" where
  "js_mul a b = arith (\<lambda>x y. JNum (num_mul x y)) a b"

definition js_add :: "jsval \<Rightarrow> jsval \<Rightarrow> jsval option" where
  "js_add a b = arith (\<lambda>x y. JNum (num_add x y)) a b"

fun truthy :: "jsval \<Rightarrow> bool" where
  "truthy JUndefined = False"
| "truthy JNull = False"
| "truthy (JBool b) = b"
| "truthy (JNum (Fin a)) = (a \<noteq> 0)"
| "truthy (JNum NaN) = False"
| "truthy (JNum _) = True"
| "truthy (JStr s) = (s \<noteq> [])"
| "truthy _ = True"

subsection \<open>Properties\<close>

text \<open>Decimal index keys of strings and arrays (\<^verbatim>\<open>"0"\<close>, \<^verbatim>\<open>"1"\<close>, ...).\<close>

fun dec :: "nat \<Rightarrow> string" where
  "dec n = (if n < 10 then [char_of (48 + n)] else dec (n div 10) @ [char_of (48 + n mod 10)])"

declare dec.simps [simp del]

text \<open>
  \<^verbatim>\<open>Object.keys\<close> and \<^verbatim>\<open>Object.values\<close>: a TypeError (\<open>None\<close>) on
  \<^verbatim>\<open>undefined\<close> and \<^verbatim>\<open>null\<close>, nothing for a number or boolean, the indices
  or elements of a string or array, the own properties of an object.
\<close>

fun Object_keys :: "jsval \<Rightarrow> string list option" where
  "Object_keys JUndefined = None"
| "Object_keys JNull = None"
| "Object_keys (JBool b) = Some []"
| "Object_keys (JNum n) = Some []"
| "Object_keys (JStr s) = Some (map dec [0..<length s])"
| "Object_keys (JArr xs) = Some (map dec [0..<length xs])"
| "Object_keys (JObj ps) = Some (map fst ps)"

fun Object_values :: "jsval \<Rightarrow> jsval list option" where
  "Object_values JUndefined = None"
| "Object_values JNull = None"
| "Object_values (JBool b) = Some []"
| "Object_values (JNum n) = Some []"
| "Object_values (JStr s) = Some (map (\<lambda>c. JStr [c]) s)"
| "Object_values (JArr xs) = Some xs"
| "Object_values (JObj ps) = Some (map snd ps)"

text \<open>
  The names every plain object inherits from \<^verbatim>\<open>Object.prototype\<close>. The operator
  \<^verbatim>\<open>key in obj\<close> consults the prototype chain, so it holds for these names as well
  as for the object's own keys.
\<close>

definition Object_prototype_keys :: "string list" where
  "Object_prototype_keys =
     [''constructor'', ''__defineGetter__'', ''__defineSetter__'', ''hasOwnProperty'',
      ''__lookupGetter__'', ''__lookupSetter__'', ''isPrototypeOf'',
      ''propertyIsEnumerable'', ''toString'', ''valueOf'', ''__proto__'',
      ''toLocaleString'']"

definition js_in :: "string \<Rightarrow> props \<Rightarrow> bool" where
  "js_in k ps = (k \<in> set (map fst ps) \<or> k \<in> set Object_prototype_keys)"

text \<open>Reading \<^verbatim>\<open>obj.k\<close> for a key that the prototype does not define.\<close>

definition js_get :: "props \<Rightarrow> string \<Rightarrow> jsval" where
  "js_get ps k = (case map_of ps k of Some v \<Rightarrow> v | None \<Rightarrow> JUndefined)"

text \<open>\<^verbatim>\<open>value[k]\<close> for a key \<open>k\<close> obtained from \<^verbatim>\<open>Object.keys(value)\<close>.\<close>

fun member :: "jsval \<Rightarrow> string \<Rightarrow> jsval" where
  "member (JObj ps) k = js_get ps k"
| "member (JArr xs) k =
     (case filter (\<lambda>i. dec i = k) [0..<length xs] of i # _ \<Rightarrow> xs ! i | [] \<Rightarrow> JUndefined)"
| "member (JStr s) k =
     (case filter (\<lambda>i. dec i = k) [0..<length s] of i # _ \<Rightarrow> JStr [s ! i] | [] \<Rightarrow> JUndefined)"
| "member _ k = JUndefined"


section \<open>Telemetry processor\<close>

text \<open>
  Outcome of a method: it returns, it throws a TypeError (with the state reached at the
  throw, which later calls go on from), or it meets an operand outside the embedded
  fragment.
\<close>

datatype 'a outcome = Returns 'a | Throws 'a | Outside

text \<open>Statements in sequence: the first one that does not return ends the method.\<close>

fun run_steps :: "('a \<Rightarrow> 'a outcome) list \<Rightarrow> 'a \<Rightarrow> 'a outcome" where
  "run_steps [] s = Returns s"
| "run_steps (f # fs) s = (case f s of Returns s' \<Rightarrow> run_steps fs s' | r \<Rightarrow> r)"

record tire_rings =
  fl :: "jsval list"
  fr :: "jsval list"
  rl :: "jsval list"
  rr :: "jsval list"

record history =
  speed :: "jsval list"
  rpm :: "jsval list"
  fuelLevel :: "jsval list"
  lapTimes :: "jsval list"
  sectorTimes :: "jsval list"
  tireTemps :: tire_rings
  engineTemp :: "jsval list"
  timestamps :: "jsval list"

text \<open>A template literal: its constant parts and the values interpolated between them.\<close>

datatype fragment = Lit string | Interp jsval

record suggestion =
  priority :: string
  text' :: "fragment list"
  gain :: "fragment list"
  type :: string

record processor =
  currentData :: props
  dataHistory :: history
  maxHistoryLength :: nat
  aiSuggestions :: "suggestion list"


subsection \<open>Construction\<close>

definition corners :: "real \<Rightarrow> real \<Rightarrow> real \<Rightarrow> real \<Rightarrow> jsval" where
  "corners a b c d =
     JObj [(''fl'', JNum (Fin a)), (''fr'', JNum (Fin b)), (''rl'', JNum (Fin c)),
           (''rr'', JNum (Fin d))]"

text \<open>The object literal of the constructor.\<close>

definition initial_currentData :: props where
  "initial_currentData =
     [(''speed'', JNum (Fin 0)), (''maxSpeed'', JNum (Fin 0)), (''gear'', JStr ''N''),
      (''rpm'', JNum (Fin 0)), (''throttle'', JNum (Fin 0)), (''brake'', JNum (Fin 0)),
      (''clutch'', JNum (Fin 0)), (''steeringAngle'', JNum (Fin 0)),
      (''engineTemp'', JNum (Fin 0)), (''oilPressure'', JNum (Fin 0)),
      (''oilTemp'', JNum (Fin 0)), (''boostLevel'', JNum (Fin 0)),
      (''engineMap'', JStr ''MAP1''), (''pitLimiter'', JBool False),
      (''engineHealth'', JNum (Fin 100)),
      (''fuelLevel'', JNum (Fin 0)), (''fuelCapacity'', JNum (Fin 100)),
      (''fuelUsagePerLap'', JNum (Fin 0)), (''estimatedLapsRemaining'', JNum (Fin 0)),
      (''pitWindowOpen'', JBool False),
      (''tireTemps'', corners 0 0 0 0), (''tirePressures'', corners 0 0 0 0),
      (''tireWear'', corners 0 0 0 0), (''tireSlipRatio'', JNum (Fin 0)),
      (''rideHeight'', JNum (Fin 0)), (''suspensionTravel'', JNum (Fin 0)),
      (''camber'', corners 0 0 0 0), (''toe'', corners 0 0 0 0),
      (''currentLapTime'', JNum (Fin 0)), (''lastLapTime'', JNum (Fin 0)),
      (''bestLapTime'', JNum (Fin 0)), (''deltaToOptimal'', JNum (Fin 0)),
      (''sectorTimes'', JArr [JNum (Fin 0), JNum (Fin 0), JNum (Fin 0)]),
      (''position'', JNum (Fin 1)), (''gapAhead'', JNum (Fin 0)),
      (''gapBehind'', JNum (Fin 0)),
      (''sessionType'', JStr ''PRACTICE''), (''currentLap'', JNum (Fin 1)),
      (''totalLaps'', JNum (Fin 0)), (''timeRemaining'', JNum (Fin 0)),
      (''flagStatus'', JStr ''GREEN''),
      (''trackTemp'', JNum (Fin 20)), (''airTemp'', JNum (Fin 18)),
      (''trackCondition'', JStr ''DRY''), (''trackName'', JStr ''SILVERSTONE CIRCUIT''),
      (''drsStatus'', JStr ''CLOSED''), (''kersLevel'', JNum (Fin 0)),
      (''incidentCount'', JNum (Fin 0)), (''penaltyTime'', JNum (Fin 0)),
      (''brakeTemp'', corners 0 0 0 0), (''brakePressure'', JNum (Fin 0)),
      (''positionX'', JNum (Fin 0)), (''positionY'', JNum (Fin 0)),
      (''positionZ'', JNum (Fin 0)), (''velocityX'', JNum (Fin 0)),
      (''velocityY'', JNum (Fin 0)), (''velocityZ'', JNum (Fin 0))]"

definition initial_dataHistory :: history where
  "initial_dataHistory =
     \<lparr>speed = [], rpm = [], fuelLevel = [], lapTimes = [], sectorTimes = [],
      tireTemps = \<lparr>fl = [], fr = [], rl = [], rr = []\<rparr>, engineTemp = [],
      timestamps = []\<rparr>"

text \<open>
  An object literal \<^verbatim>\<open>{...obj, k: v, ...}\<close>: the spread properties, then each named
  one, overwriting in place a key already there and appending a new one.
\<close>

definition spread_with :: "props \<Rightarrow> props \<Rightarrow> props" where
  "spread_with ps named = foldl (\<lambda>acc (k, v). AList.update k v acc) ps named"

definition demo_fields :: props where
  "demo_fields =
     [(''speed'', JNum (Fin 287)), (''maxSpeed'', JNum (Fin 320)), (''gear'', JStr ''7''),
      (''rpm'', JNum (Fin 11847)), (''throttle'', JNum (Fin 94)), (''brake'', JNum (Fin 0)),
      (''engineTemp'', JNum (Fin 89)), (''oilPressure'', JNum (Fin 94)),
      (''boostLevel'', JNum (Fin 1.4)), (''engineMap'', JStr ''MAP2''),
      (''fuelLevel'', JNum (Fin 18.7)), (''fuelUsagePerLap'', JNum (Fin 2.1)),
      (''estimatedLapsRemaining'', JNum (Fin 8.9)), (''pitWindowOpen'', JBool True),
      (''tireTemps'', corners 89 91 95 93),
      (''tirePressures'', corners 32.1 32.3 31.8 32.0),
      (''tireWear'', corners 23 18 31 29),
      (''currentLapTime'', JNum (Fin 83.5)), (''lastLapTime'', JNum (Fin 81.890)),
      (''bestLapTime'', JNum (Fin 81.234)), (''deltaToOptimal'', JNum (Fin (- 0.743))),
      (''sectorTimes'', JArr [JNum (Fin 31.234), JNum (Fin 28.891), JNum (Fin 21.765)]),
      (''position'', JNum (Fin 3)), (''gapAhead'', JNum (Fin 2.847)),
      (''gapBehind'', JNum (Fin 1.234)), (''currentLap'', JNum (Fin 12)),
      (''totalLaps'', JNum (Fin 25)), (''drsStatus'', JStr ''OPEN''),
      (''kersLevel'', JNum (Fin 85)), (''brakeTemp'', corners 450 445 420 425),
      (''rideHeight'', JNum (Fin 35)), (''suspensionTravel'', JNum (Fin 12))]"

subsection \<open>Merging an update\<close>

text \<open>
  \<^verbatim>\<open>obj[key] = v\<close> on a plain object. The name \<^verbatim>\<open>__proto__\<close> is an accessor of
  the prototype: a primitive assigned to it is dropped, an object or null would replace
  the prototype, which the embedding does not follow (\<open>None\<close>).
\<close>

definition assign :: "string \<Rightarrow> jsval \<Rightarrow> props \<Rightarrow> props option" where
  "assign k v ps =
     (if k = ''__proto__''
      then (case v of JObj _ \<Rightarrow> None | JArr _ \<Rightarrow> None | JNull \<Rightarrow> None | _ \<Rightarrow> Some ps)
      else Some (AList.update k v ps))"

text \<open>
  The loop of \<^verbatim>\<open>updateCurrentData\<close>:
  \<^verbatim>\<open>Object.keys(newData).forEach(key => { if (key in this.currentData) this.currentData[key] = newData[key]; })\<close>
\<close>

fun merge_keys :: "string list \<Rightarrow> jsval \<Rightarrow> props \<Rightarrow> props option" where
  "merge_keys [] newData cd = Some cd"
| "merge_keys (key # keys) newData cd =
     (if js_in key cd
      then (case assign key (member newData key) cd of
              None \<Rightarrow> None
            | Some cd' \<Rightarrow> merge_keys keys newData cd')
      else merge_keys keys newData cd)"

subsection \<open>Derived values\<close>

text \<open>\<^verbatim>\<open>if (speed > maxSpeed) maxSpeed = speed\<close>\<close>

definition update_maxSpeed :: "props \<Rightarrow> props outcome" where
  "update_maxSpeed cd =
     (case js_gt (js_get cd ''speed'') (js_get cd ''maxSpeed'') of
        None \<Rightarrow> Outside
      | Some faster \<Rightarrow>
          Returns (if faster then AList.update ''maxSpeed'' (js_get cd ''speed'') cd else cd))"

text \<open>\<^verbatim>\<open>fuelPercentage = (fuelLevel / fuelCapacity) * 100\<close>\<close>

definition calc_fuelPercentage :: "props \<Rightarrow> props outcome" where
  "calc_fuelPercentage cd =
     (case js_div (js_get cd ''fuelLevel'') (js_get cd ''fuelCapacity'') of
        None \<Rightarrow> Outside
      | Some q \<Rightarrow>
          (case js_mul q (JNum (Fin 100)) of
             None \<Rightarrow> Outside
           | Some pct \<Rightarrow> Returns (AList.update ''fuelPercentage'' pct cd)))"

text \<open>\<^verbatim>\<open>if (fuelUsagePerLap > 0) estimatedLapsRemaining = fuelLevel / fuelUsagePerLap\<close>\<close>

definition estimate_laps :: "props \<Rightarrow> props outcome" where
  "estimate_laps cd =
     (case js_gt (js_get cd ''fuelUsagePerLap'') (JNum (Fin 0)) of
        None \<Rightarrow> Outside
      | Some False \<Rightarrow> Returns cd
      | Some True \<Rightarrow>
          (case js_div (js_get cd ''fuelLevel'') (js_get cd ''fuelUsagePerLap'') of
             None \<Rightarrow> Outside
           | Some laps \<Rightarrow> Returns (AList.update ''estimatedLapsRemaining'' laps cd)))"

text \<open>\<^verbatim>\<open>tireTemps.reduce((sum, temp) => sum + temp, 0)\<close>\<close>

fun reduce_sum :: "jsval \<Rightarrow> jsval list \<Rightarrow> jsval option" where
  "reduce_sum acc [] = Some acc"
| "reduce_sum acc (temp # temps) =
     (case js_add acc temp of None \<Rightarrow> None | Some acc' \<Rightarrow> reduce_sum acc' temps)"

text \<open>
  \<^verbatim>\<open>const tireTemps = Object.values(this.currentData.tireTemps);\<close>
  \<^verbatim>\<open>avgTireTemp = tireTemps.reduce(...) / tireTemps.length\<close>
\<close>

definition calc_avgTireTemp :: "props \<Rightarrow> props outcome" where
  "calc_avgTireTemp cd =
     (case Object_values (js_get cd ''tireTemps'') of
        None \<Rightarrow> Throws cd
      | Some temps \<Rightarrow>
          (case reduce_sum (JNum (Fin 0)) temps of
             None \<Rightarrow> Outside
           | Some acc \<Rightarrow>
               (case js_div acc (JNum (Fin (real (length temps)))) of
                  None \<Rightarrow> Outside
                | Some avg \<Rightarrow> Returns (AList.update ''avgTireTemp'' avg cd))))"

text \<open>\<^verbatim>\<open>pitWindowOpen = fuelPercentage < 30 || estimatedLapsRemaining < 3\<close>\<close>

definition determine_pitWindow :: "props \<Rightarrow> props outcome" where
  "determine_pitWindow cd =
     (case js_lt (js_get cd ''fuelPercentage'') (JNum (Fin 30)) of
        None \<Rightarrow> Outside
      | Some True \<Rightarrow> Returns (AList.update ''pitWindowOpen'' (JBool True) cd)
      | Some False \<Rightarrow>
          (case js_lt (js_get cd ''estimatedLapsRemaining'') (JNum (Fin 3)) of
             None \<Rightarrow> Outside
           | Some low \<Rightarrow> Returns (AList.update ''pitWindowOpen'' (JBool low) cd)))"

definition derive :: "props \<Rightarrow> props outcome" where
  "derive = run_steps [update_maxSpeed, calc_fuelPercentage, estimate_laps,
                       calc_avgTireTemp, determine_pitWindow]"

text \<open>The methods act on \<^verbatim>\<open>this.currentData\<close>.\<close>

definition on_currentData :: "(props \<Rightarrow> props outcome) \<Rightarrow> processor \<Rightarrow> processor outcome" where
  "on_currentData f p =
     (case f (currentData p) of
        Returns cd \<Rightarrow> Returns (p\<lparr>currentData := cd\<rparr>)
      | Throws cd \<Rightarrow> Throws (p\<lparr>currentData := cd\<rparr>)
      | Outside \<Rightarrow> Outside)"

definition calculateDerivedValues :: "processor \<Rightarrow> processor outcome" where
  "calculateDerivedValues = on_currentData derive"

definition updateCurrentData :: "jsval \<Rightarrow> processor \<Rightarrow> processor outcome" where
  "updateCurrentData newData p =
     (case Object_keys newData of
        None \<Rightarrow> Throws p
      | Some keys \<Rightarrow>
          (case merge_keys keys newData (currentData p) of
             None \<Rightarrow> Outside
           | Some cd \<Rightarrow> calculateDerivedValues (p\<lparr>currentData := cd\<rparr>)))"


subsection \<open>History\<close>

text \<open>\<^verbatim>\<open>xs.slice(-n)\<close>: the last \<open>n\<close> elements; \<^verbatim>\<open>-0\<close> is \<^verbatim>\<open>0\<close>, the whole array.\<close>

definition slice_last :: "nat \<Rightarrow> 'a list \<Rightarrow> 'a list" where
  "slice_last n xs = (if n = 0 then xs else drop (length xs - n) xs)"

definition limit :: "nat \<Rightarrow> 'a list \<Rightarrow> 'a list" where
  "limit n xs = (if n < length xs then slice_last n xs else xs)"

text \<open>
  \<^verbatim>\<open>this.dataHistory.tireTemps[tire].push(v)\<close>: for any name but the four corners the
  receiver is not an array and the call throws a TypeError (\<open>None\<close>).
\<close>

definition push_ring :: "string \<Rightarrow> jsval \<Rightarrow> tire_rings \<Rightarrow> tire_rings option" where
  "push_ring tire v t =
     (if tire = ''fl'' then Some (t\<lparr>fl := fl t @ [v]\<rparr>)
      else if tire = ''fr'' then Some (t\<lparr>fr := fr t @ [v]\<rparr>)
      else if tire = ''rl'' then Some (t\<lparr>rl := rl t @ [v]\<rparr>)
      else if tire = ''rr'' then Some (t\<lparr>rr := rr t @ [v]\<rparr>)
      else None)"

text \<open>The loop over the tires; the flag tells whether it ran to its end.\<close>

fun push_tires :: "string list \<Rightarrow> jsval \<Rightarrow> tire_rings \<Rightarrow> tire_rings \<times> bool" where
  "push_tires [] temps t = (t, True)"
| "push_tires (tire # tires) temps t =
     (case push_ring tire (member temps tire) t of
        None \<Rightarrow> (t, False)
      | Some t' \<Rightarrow> push_tires tires temps t')"

definition limit_rings :: "nat \<Rightarrow> tire_rings \<Rightarrow> tire_rings" where
  "limit_rings n t =
     \<lparr>fl = limit n (fl t), fr = limit n (fr t), rl = limit n (rl t), rr = limit n (rr t)\<rparr>"

definition limit_history :: "nat \<Rightarrow> history \<Rightarrow> history" where
  "limit_history n h =
     \<lparr>speed = limit n (speed h), rpm = limit n (rpm h), fuelLevel = limit n (fuelLevel h),
      lapTimes = limit n (lapTimes h), sectorTimes = limit n (sectorTimes h),
      tireTemps = limit_rings n (tireTemps h), engineTemp = limit n (engineTemp h),
      timestamps = limit n (timestamps h)\<rparr>"

text \<open>
  \<^verbatim>\<open>updateHistory(timestamp)\<close>; \<open>now\<close> is what \<^verbatim>\<open>Date.now()\<close> reads.
\<close>

definition updateHistory :: "jsval \<Rightarrow> real \<Rightarrow> processor \<Rightarrow> processor outcome" where
  "updateHistory timestamp now p =
     (let currentTime = (if truthy timestamp then timestamp else JNum (Fin now));
          cd = currentData p;
          h = dataHistory p;
          h1 = h\<lparr>timestamps := timestamps h @ [currentTime],
                 speed := speed h @ [js_get cd ''speed''],
                 rpm := rpm h @ [js_get cd ''rpm''],
                 fuelLevel := fuelLevel h @ [js_get cd ''fuelLevel''],
                 engineTemp := engineTemp h @ [js_get cd ''engineTemp'']\<rparr>
      in case Object_keys (js_get cd ''tireTemps'') of
           None \<Rightarrow> Throws (p\<lparr>dataHistory := h1\<rparr>)
         | Some tires \<Rightarrow>
             (case push_tires tires (js_get cd ''tireTemps'') (tireTemps h1) of
                (t, False) \<Rightarrow> Throws (p\<lparr>dataHistory := h1\<lparr>tireTemps := t\<rparr>\<rparr>)
              | (t, True) \<Rightarrow>
                  Returns (p\<lparr>dataHistory :=
                    limit_history (maxHistoryLength p) (h1\<lparr>tireTemps := t\<rparr>)\<rparr>)))"

subsection \<open>Suggestions\<close>

definition push_suggestion :: "suggestion \<Rightarrow> processor \<Rightarrow> processor" where
  "push_suggestion sg p = p\<lparr>aiSuggestions := aiSuggestions p @ [sg]\<rparr>"

definition clear_suggestions :: "processor \<Rightarrow> processor outcome" where
  "clear_suggestions p = Returns (p\<lparr>aiSuggestions := []\<rparr>)"

text \<open>
  \<^verbatim>\<open>if (fuelPercentage < 25)\<close>: the pit window, with the laps
  \<^verbatim>\<open>currentLap + 2\<close>, \<^verbatim>\<open>currentLap + 4\<close> and \<^verbatim>\<open>currentLap + 3\<close> interpolated.
\<close>

definition pit_rule :: "processor \<Rightarrow> processor outcome" where
  "pit_rule p =
     (let cd = currentData p; lap = js_get cd ''currentLap'' in
      case js_lt (js_get cd ''fuelPercentage'') (JNum (Fin 25)) of
        None \<Rightarrow> Outside
      | Some False \<Rightarrow> Returns p
      | Some True \<Rightarrow>
          (case js_add lap (JNum (Fin 2)) of None \<Rightarrow> Outside | Some lap2 \<Rightarrow>
          (case js_add lap (JNum (Fin 4)) of None \<Rightarrow> Outside | Some lap4 \<Rightarrow>
          (case js_add lap (JNum (Fin 3)) of None \<Rightarrow> Outside | Some lap3 \<Rightarrow>
             Returns (push_suggestion
               \<lparr>priority = ''HIGH PRIORITY'',
                text' = [Lit ''PIT WINDOW OPENS LAP '', Interp lap2, Lit ''-'', Interp lap4],
                gain = [Lit ''OPTIMAL: LAP '', Interp lap3],
                type = ''strategy''\<rparr> p)))))"

text \<open>\<^verbatim>\<open>if (fuelUsagePerLap > 2.5)\<close>, with \<^verbatim>\<open>Math.floor(fuelLevel * 0.1)\<close> interpolated.\<close>

definition fuel_save_rule :: "processor \<Rightarrow> processor outcome" where
  "fuel_save_rule p =
     (let cd = currentData p in
      case js_gt (js_get cd ''fuelUsagePerLap'') (JNum (Fin 2.5)) of
        None \<Rightarrow> Outside
      | Some False \<Rightarrow> Returns p
      | Some True \<Rightarrow>
          (case arith (\<lambda>x y. num_floor (num_mul x y)) (js_get cd ''fuelLevel'') (JNum (Fin 0.1)) of
             None \<Rightarrow> Outside
           | Some laps \<Rightarrow>
               Returns (push_suggestion
                 \<lparr>priority = ''FUEL SAVE'',
                  text' = [Lit ''REDUCE FUEL USAGE BY 0.2L/LAP''],
                  gain = [Lit ''EXTENDS STINT +'', Interp (JNum laps), Lit '' LAPS''],
                  type = ''fuel''\<rparr> p)))"

text \<open>Every argument of \<^verbatim>\<open>Math.max\<close> converted to a number.\<close>

fun ToNumbers :: "jsval list \<Rightarrow> jsnum list option" where
  "ToNumbers [] = Some []"
| "ToNumbers (v # vs) =
     (case ToNumber v of
        None \<Rightarrow> None
      | Some n \<Rightarrow> (case ToNumbers vs of None \<Rightarrow> None | Some ns \<Rightarrow> Some (n # ns)))"

text \<open>
  \<^verbatim>\<open>const maxTireTemp = Math.max(...Object.values(this.currentData.tireTemps));\<close>
  \<^verbatim>\<open>if (maxTireTemp > 100)\<close>
\<close>

definition tire_rule :: "processor \<Rightarrow> processor outcome" where
  "tire_rule p =
     (case Object_values (js_get (currentData p) ''tireTemps'') of
        None \<Rightarrow> Throws p
      | Some temps \<Rightarrow>
          (case ToNumbers temps of
             None \<Rightarrow> Outside
           | Some ns \<Rightarrow>
               Returns (if num_less (Fin 100) (Math_max ns)
                 then push_suggestion
                   \<lparr>priority = ''TIRE MANAGEMENT'',
                    text' = [Lit ''TIRE TEMPERATURES HIGH - MANAGE PACE''],
                    gain = [Lit ''EXTENDS TIRE LIFE''],
                    type = ''tires''\<rparr> p
                 else p)))"

text \<open>\<^verbatim>\<open>if (gapAhead < 1.0 && drsStatus === 'AVAILABLE')\<close>\<close>

definition overtake_rule :: "processor \<Rightarrow> processor outcome" where
  "overtake_rule p =
     (let cd = currentData p in
      case js_lt (js_get cd ''gapAhead'') (JNum (Fin 1.0)) of
        None \<Rightarrow> Outside
      | Some close \<Rightarrow>
          Returns (if close \<and> js_get cd ''drsStatus'' = JStr ''AVAILABLE''
            then push_suggestion
              \<lparr>priority = ''HIGH PRIORITY'',
               text' = [Lit ''OVERTAKE OPPORTUNITY - T13 STOWE CORNER''],
               gain = [Lit ''POTENTIAL GAIN: +0.3s''],
               type = ''overtake''\<rparr> p
            else p))"

text \<open>\<^verbatim>\<open>if (gapBehind < 1.5)\<close>\<close>

definition defense_rule :: "processor \<Rightarrow> processor outcome" where
  "defense_rule p =
     (case js_lt (js_get (currentData p) ''gapBehind'') (JNum (Fin 1.5)) of
        None \<Rightarrow> Outside
      | Some close \<Rightarrow>
          Returns (if close
            then push_suggestion
              \<lparr>priority = ''DEFENSIVE'',
               text' = [Lit ''DEFEND INSIDE LINE T1-T3''],
               gain = [Lit ''RISK LEVEL: MEDIUM''],
               type = ''defense''\<rparr> p
            else p))"

text \<open>\<^verbatim>\<open>if (engineTemp > 95)\<close>\<close>

definition engine_rule :: "processor \<Rightarrow> processor outcome" where
  "engine_rule p =
     (case js_gt (js_get (currentData p) ''engineTemp'') (JNum (Fin 95)) of
        None \<Rightarrow> Outside
      | Some hot \<Rightarrow>
          Returns (if hot
            then push_suggestion
              \<lparr>priority = ''ENGINE'',
               text' = [Lit ''ENGINE TEMPERATURE HIGH - LIFT AND COAST''],
               gain = [Lit ''PREVENTS DAMAGE''],
               type = ''engine''\<rparr> p
            else p))"

definition generateAISuggestions :: "processor \<Rightarrow> processor outcome" where
  "generateAISuggestions =
     run_steps [clear_suggestions, pit_rule, fuel_save_rule, tire_rule, overtake_rule,
                defense_rule, engine_rule]"

subsection \<open>Entry points\<close>

definition initializeDemoData :: "processor \<Rightarrow> processor outcome" where
  "initializeDemoData p =
     generateAISuggestions (p\<lparr>currentData := spread_with (currentData p) demo_fields\<rparr>)"

definition new_TelemetryProcessor :: "processor outcome" where
  "new_TelemetryProcessor =
     initializeDemoData
       \<lparr>currentData = initial_currentData, dataHistory = initial_dataHistory,
        maxHistoryLength = 300, aiSuggestions = []\<rparr>"

text \<open>
  \<^verbatim>\<open>processTelemetryData(data, timestamp)\<close>: update, record, regenerate the suggestions
  when the draw \<open>random\<close> of \<^verbatim>\<open>Math.random()\<close> is below 0.1. The body is wrapped in
  \<^verbatim>\<open>try/catch\<close>, so a throw leaves the processor as it was at the throw. The
  subscribers notified at the end are handed the internal objects; what they do is not
  part of the processor.
\<close>

definition processTelemetryData ::
  "jsval \<Rightarrow> jsval \<Rightarrow> real \<Rightarrow> real \<Rightarrow> processor \<Rightarrow> processor option" where
  "processTelemetryData data timestamp now random p =
     (case run_steps
             [updateCurrentData data, updateHistory timestamp now,
              (\<lambda>p. if random < 0.1 then generateAISuggestions p else Returns p)] p of
        Returns p' \<Rightarrow> Some p'
      | Throws p' \<Rightarrow> Some p'
      | Outside \<Rightarrow> None)"

text \<open>The processor as the constructor leaves it.\<close>

definition constructed :: processor where
  "constructed =
     \<lparr>currentData = spread_with initial_currentData demo_fields,
      dataHistory = initial_dataHistory, maxHistoryLength = 300,
      aiSuggestions =
        [\<lparr>priority = ''DEFENSIVE'', text' = [Lit ''DEFEND INSIDE LINE T1-T3''],
          gain = [Lit ''RISK LEVEL: MEDIUM''], type = ''defense''\<rparr>]\<rparr>"



subsection \<open>Vocabulary of the merge\<close>














section \<open>The accessors over a store\<close>

text \<open>
  What \<^verbatim>\<open>getCurrentData\<close> and \<^verbatim>\<open>getDataHistory\<close> return shares objects with the
  processor, so they are modelled over an explicit store: a cell per object or array,
  properties and elements holding primitives or references to cells. An address is an
  index into the store; allocation appends.
\<close>

datatype ref_val = Prim jsval | Ref nat

datatype cell = ObjectCell "(string \<times> ref_val) list" | ArrayCell "ref_val list"

type_synonym store = "cell list"

definition alloc :: "cell \<Rightarrow> store \<Rightarrow> nat \<times> store" where
  "alloc c st = (length st, st @ [c])"

text \<open>A value as a graph in the store: every object and array gets a cell of its own.\<close>

fun store_val :: "jsval \<Rightarrow> store \<Rightarrow> ref_val \<times> store"
  and store_all :: "jsval list \<Rightarrow> store \<Rightarrow> ref_val list \<times> store"
  and store_props :: "(string \<times> jsval) list \<Rightarrow> store \<Rightarrow> (string \<times> ref_val) list \<times> store"
where
  "store_val (JObj ps) st =
     (case store_props ps st of (ps', st') \<Rightarrow> (Ref (length st'), st' @ [ObjectCell ps']))"
| "store_val (JArr xs) st =
     (case store_all xs st of (xs', st') \<Rightarrow> (Ref (length st'), st' @ [ArrayCell xs']))"
| "store_val v st = (Prim v, st)"
| "store_all [] st = ([], st)"
| "store_all (x # xs) st =
     (case store_val x st of (x', st1) \<Rightarrow>
        (case store_all xs st1 of (xs', st2) \<Rightarrow> (x' # xs', st2)))"
| "store_props [] st = ([], st)"
| "store_props ((k, v) # ps) st =
     (case store_val v st of (v', st1) \<Rightarrow>
        (case store_props ps st1 of (ps', st2) \<Rightarrow> ((k, v') # ps', st2)))"

text \<open>The fields \<^verbatim>\<open>this.currentData\<close> and \<^verbatim>\<open>this.dataHistory\<close> hold references.\<close>

record handles =
  currentData_at :: nat
  dataHistory_at :: nat

text \<open>The history object of the constructor, with its rings as arrays.\<close>

definition history_object :: "history \<Rightarrow> jsval" where
  "history_object h =
     JObj [(''speed'', JArr (speed h)), (''rpm'', JArr (rpm h)),
           (''fuelLevel'', JArr (fuelLevel h)), (''lapTimes'', JArr (lapTimes h)),
           (''sectorTimes'', JArr (sectorTimes h)),
           (''tireTemps'',
              JObj [(''fl'', JArr (fl (tireTemps h))), (''fr'', JArr (fr (tireTemps h))),
                    (''rl'', JArr (rl (tireTemps h))), (''rr'', JArr (rr (tireTemps h)))]),
           (''engineTemp'', JArr (engineTemp h)), (''timestamps'', JArr (timestamps h))]"

definition address :: "ref_val \<Rightarrow> nat" where
  "address r = (case r of Ref a \<Rightarrow> a | Prim v \<Rightarrow> 0)"

text \<open>A processor laid out in an empty store: its snapshot, then its history.\<close>

definition load_processor :: "processor \<Rightarrow> handles \<times> store" where
  "load_processor p =
     (case store_val (JObj (currentData p)) [] of (cd, st1) \<Rightarrow>
        (case store_val (history_object (dataHistory p)) st1 of (dh, st2) \<Rightarrow>
           (\<lparr>currentData_at = address cd, dataHistory_at = address dh\<rparr>, st2)))"

text \<open>The own properties of the object at an address (index keys for an array).\<close>

definition own_props :: "store \<Rightarrow> nat \<Rightarrow> (string \<times> ref_val) list" where
  "own_props st a =
     (if a < length st
      then (case st ! a of
              ObjectCell ps \<Rightarrow> ps
            | ArrayCell xs \<Rightarrow> zip (map dec [0..<length xs]) xs)
      else [])"

text \<open>
  \<^verbatim>\<open>return { ...this.currentData };\<close> and \<^verbatim>\<open>return { ...this.dataHistory };\<close>: a
  new object with the own properties of the internal one, each holding the same
  primitive or the same reference.
\<close>

definition getCurrentData :: "handles \<Rightarrow> store \<Rightarrow> nat \<times> store" where
  "getCurrentData this st = alloc (ObjectCell (own_props st (currentData_at this))) st"

definition getDataHistory :: "handles \<Rightarrow> store \<Rightarrow> nat \<times> store" where
  "getDataHistory this st = alloc (ObjectCell (own_props st (dataHistory_at this))) st"

text \<open>
  What a caller can do with a reference: read a property, overwrite the object behind
  it in any way (\<open>overwrite\<close> puts any content in its cell), assign to a property,
  push onto an array.
\<close>

definition get_prop :: "store \<Rightarrow> ref_val \<Rightarrow> string \<Rightarrow> ref_val" where
  "get_prop st r k =
     (case r of
        Prim v \<Rightarrow> Prim JUndefined
      | Ref a \<Rightarrow> (case map_of (own_props st a) k of Some v \<Rightarrow> v | None \<Rightarrow> Prim JUndefined))"

definition overwrite :: "nat \<Rightarrow> cell \<Rightarrow> store \<Rightarrow> store" where
  "overwrite a c st = st[a := c]"

definition set_prop :: "ref_val \<Rightarrow> string \<Rightarrow> ref_val \<Rightarrow> store \<Rightarrow> store" where
  "set_prop r k v st =
     (case r of
        Prim u \<Rightarrow> st
      | Ref a \<Rightarrow>
          (if a < length st
           then (case st ! a of
                   ObjectCell ps \<Rightarrow> overwrite a (ObjectCell (AList.update k v ps)) st
                 | ArrayCell xs \<Rightarrow> st)
           else st))"

definition push :: "ref_val \<Rightarrow> ref_val \<Rightarrow> store \<Rightarrow> store" where
  "push r v st =
     (case r of
        Prim u \<Rightarrow> st
      | Ref a \<Rightarrow>
          (if a < length st
           then (case st ! a of
                   ArrayCell xs \<Rightarrow> overwrite a (ArrayCell (xs @ [v])) st
                 | ObjectCell ps \<Rightarrow> st)
           else st))"

text \<open>The array behind a reference, for reading a ring.\<close>

definition elements :: "store \<Rightarrow> ref_val \<Rightarrow> ref_val list" where
  "elements st r =
     (case r of
        Prim v \<Rightarrow> []
      | Ref a \<Rightarrow> (if a < length st then (case st ! a of ArrayCell xs \<Rightarrow> xs | ObjectCell ps \<Rightarrow> []) else []))"

text \<open>
  The caller's two statements on what the accessors return,
  \<^verbatim>\<open>processor.getCurrentData().tireTemps.fl = 999\<close> and
  \<^verbatim>\<open>processor.getDataHistory().speed.push(1)\<close>, and the processor's own reads
  \<^verbatim>\<open>this.currentData.tireTemps.fl\<close> and \<^verbatim>\<open>this.dataHistory.speed\<close>.
\<close>

definition caller_sets_tire :: "handles \<times> store \<Rightarrow> handles \<times> store" where
  "caller_sets_tire hs =
     (case hs of (this, st) \<Rightarrow>
        (case getCurrentData this st of (c, st') \<Rightarrow>
           (this, set_prop (get_prop st' (Ref c) ''tireTemps'') ''fl'' (Prim (JNum (Fin 999))) st')))"

definition caller_pushes_speed :: "handles \<times> store \<Rightarrow> handles \<times> store" where
  "caller_pushes_speed hs =
     (case hs of (this, st) \<Rightarrow>
        (case getDataHistory this st of (c, st') \<Rightarrow>
           (this, push (get_prop st' (Ref c) ''speed'') (Prim (JNum (Fin 1))) st')))"

definition own_tire_fl :: "handles \<times> store \<Rightarrow> ref_val" where
  "own_tire_fl hs =
     (case hs of (this, st) \<Rightarrow>
        get_prop st (get_prop st (Ref (currentData_at this)) ''tireTemps'') ''fl'')"

definition own_speed_ring :: "handles \<times> store \<Rightarrow> ref_val list" where
  "own_speed_ring hs =
     (case hs of (this, st) \<Rightarrow>
        elements st (get_prop st (Ref (dataHistory_at this)) ''speed''))"

section \<open>WebSocket client\<close>

text \<open>
  The browser's side of the client: the sockets it has constructed, each with its
  \<^verbatim>\<open>readyState\<close> and whether the client's four listeners are still set on it, and
  the timers that are pending. A socket is named by its index, a timer by the positive
  id that \<^verbatim>\<open>setTimeout\<close> or \<^verbatim>\<open>setInterval\<close> returned.
\<close>

datatype ready_state = CONNECTING | OPEN | CLOSING | CLOSED

record socket =
  url :: string
  auth :: "string option"
  readyState :: ready_state
  attached :: bool

datatype timer_kind = ConnectionTimeout | Reconnect | Heartbeat

record timer =
  timer_id :: nat
  kind :: timer_kind
  delay :: nat

text \<open>
  What the client does to the outside: a frame handed to a socket (the message object
  given to \<^verbatim>\<open>JSON.stringify\<close>), a call of \<^verbatim>\<open>close\<close> on a socket, a call of a message
  handler or of a status callback, and the error logged when one of them throws.
\<close>

datatype effect =
    Sent nat jsval
  | Close nat "nat option"
  | Invoked nat jsval jsval
  | HandlerError nat
  | Notified nat string string
  | CallbackError nat

text \<open>
  A registered function is known by an id and by whether it throws on given arguments.
  It is taken not to call back into the client while it runs.
\<close>

record handler =
  handler_id :: nat
  handler_throws :: "jsval \<Rightarrow> jsval \<Rightarrow> bool"

record callback =
  callback_id :: nat
  callback_throws :: "string \<Rightarrow> string \<Rightarrow> bool"

record config =
  serverUrl :: string
  apiKey :: string
  reconnectInterval :: nat
  maxReconnectAttempts :: nat
  heartbeatInterval :: nat

record client =
  config :: config
  ws :: "nat option"
  isConnected :: bool
  reconnectAttempts :: nat
  reconnectTimer :: "nat option"
  heartbeatTimer :: "nat option"
  messageHandlers :: "(string \<times> handler list) list"
  connectionCallbacks :: "callback list"
  sockets :: "socket list"
  timers :: "timer list"
  next_timer :: nat
  trace :: "effect list"

subsection \<open>Construction\<close>

text \<open>The constructor's argument: each key may be absent.\<close>

record options =
  opt_serverUrl :: "string option"
  opt_apiKey :: "string option"
  opt_reconnectInterval :: "nat option"
  opt_maxReconnectAttempts :: "nat option"
  opt_heartbeatInterval :: "nat option"

text \<open>
  \<^verbatim>\<open>{ key: config.key || fallback, ..., ...config }\<close>: the fallback stands in for an
  absent or falsy value, then the spread puts back every key the argument has, so a
  key that is present keeps its value even when it is falsy.
\<close>

definition or_default :: "('a \<Rightarrow> bool) \<Rightarrow> 'a option \<Rightarrow> 'a \<Rightarrow> 'a" where
  "or_default truthy_value given fallback =
     (let named = (case given of None \<Rightarrow> fallback
                   | Some v \<Rightarrow> if truthy_value v then v else fallback)
      in case given of None \<Rightarrow> named | Some v \<Rightarrow> v)"

definition new_client :: "options \<Rightarrow> client" where
  "new_client given =
     \<lparr>config =
        \<lparr>serverUrl = or_default (\<lambda>u. u \<noteq> []) (opt_serverUrl given) ''ws://137.184.151.3:8766'',
         apiKey = or_default (\<lambda>k. k \<noteq> []) (opt_apiKey given) '''',
         reconnectInterval = or_default (\<lambda>n. n \<noteq> 0) (opt_reconnectInterval given) 3000,
         maxReconnectAttempts = or_default (\<lambda>n. n \<noteq> 0) (opt_maxReconnectAttempts given) 10,
         heartbeatInterval = or_default (\<lambda>n. n \<noteq> 0) (opt_heartbeatInterval given) 30000\<rparr>,
      ws = None, isConnected = False, reconnectAttempts = 0, reconnectTimer = None,
      heartbeatTimer = None, messageHandlers = [], connectionCallbacks = [],
      sockets = [], timers = [], next_timer = 1, trace = []\<rparr>"

subsection \<open>Timers\<close>

text \<open>\<^verbatim>\<open>setTimeout\<close> and \<^verbatim>\<open>setInterval\<close>: a new pending timer under a fresh id.\<close>

definition set_timer :: "timer_kind \<Rightarrow> nat \<Rightarrow> client \<Rightarrow> nat \<times> client" where
  "set_timer k d s =
     (next_timer s,
      s\<lparr>timers := timers s @ [\<lparr>timer_id = next_timer s, kind = k, delay = d\<rparr>],
        next_timer := Suc (next_timer s)\<rparr>)"

text \<open>\<^verbatim>\<open>clearTimeout\<close> and \<^verbatim>\<open>clearInterval\<close>: the timer of that id is no longer pending.\<close>

definition clear_timer :: "nat \<Rightarrow> client \<Rightarrow> client" where
  "clear_timer i s = s\<lparr>timers := filter (\<lambda>t. timer_id t \<noteq> i) (timers s)\<rparr>"

definition clearTimers :: "client \<Rightarrow> client" where
  "clearTimers s =
     (let s1 = (case reconnectTimer s of
                  None \<Rightarrow> s
                | Some i \<Rightarrow> (clear_timer i s)\<lparr>reconnectTimer := None\<rparr>)
      in case heartbeatTimer s1 of
           None \<Rightarrow> s1
         | Some i \<Rightarrow> (clear_timer i s1)\<lparr>heartbeatTimer := None\<rparr>)"

subsection \<open>Status callbacks\<close>

definition emit :: "effect list \<Rightarrow> client \<Rightarrow> client" where
  "emit es s = s\<lparr>trace := trace s @ es\<rparr>"

text \<open>\<^verbatim>\<open>notifyConnectionChange\<close>: every callback in turn, each inside \<^verbatim>\<open>try/catch\<close>.\<close>

definition notifyConnectionChange :: "string \<Rightarrow> string \<Rightarrow> client \<Rightarrow> client" where
  "notifyConnectionChange status details s =
     emit (concat (map (\<lambda>c. Notified (callback_id c) status details
                          # (if callback_throws c status details
                             then [CallbackError (callback_id c)] else []))
                       (connectionCallbacks s))) s"

subsection \<open>Sending\<close>

text \<open>The socket in \<^verbatim>\<open>this.ws\<close> and its state, if there is one.\<close>

definition ws_state :: "client \<Rightarrow> ready_state option" where
  "ws_state s =
     (case ws s of
        None \<Rightarrow> None
      | Some i \<Rightarrow> if i < length (sockets s) then Some (readyState (sockets s ! i)) else None)"

text \<open>
  \<^verbatim>\<open>send(type, data)\<close>; \<open>now\<close> is what \<^verbatim>\<open>Date.now()\<close> reads. On an open socket
  neither \<^verbatim>\<open>JSON.stringify\<close> (of a value that is a tree) nor \<^verbatim>\<open>ws.send\<close> throws.
\<close>

definition send :: "string \<Rightarrow> jsval \<Rightarrow> nat \<Rightarrow> client \<Rightarrow> bool \<times> client" where
  "send type' data now s =
     (if \<not> isConnected s \<or> ws_state s \<noteq> Some OPEN then (False, s)
      else (True,
            emit [Sent (the (ws s))
                    (JObj [(''type'', JStr type'), (''timestamp'', JNum (Fin (real now))),
                           (''data'', data)])] s))"

subsection \<open>Reconnecting\<close>

text \<open>
  \<^verbatim>\<open>scheduleReconnect\<close>. The timer is stored in \<^verbatim>\<open>this.reconnectTimer\<close> over
  whatever that field held.
\<close>

definition scheduleReconnect :: "client \<Rightarrow> client" where
  "scheduleReconnect s =
     (if maxReconnectAttempts (config s) \<le> reconnectAttempts s
      then notifyConnectionChange ''failed'' ''Max reconnection attempts reached'' s
      else
        (let s1 = s\<lparr>reconnectAttempts := Suc (reconnectAttempts s)\<rparr>;
             d = min (reconnectInterval (config s1) * reconnectAttempts s1) 30000;
             (i, s2) = set_timer Reconnect d s1;
             s3 = s2\<lparr>reconnectTimer := Some i\<rparr>
         in notifyConnectionChange ''reconnecting'' (''Attempt '' @ dec (reconnectAttempts s3)) s3))"

text \<open>
  \<^verbatim>\<open>connect()\<close>; \<open>rejected\<close> tells whether \<^verbatim>\<open>new URL\<close> or \<^verbatim>\<open>new WebSocket\<close> throws
  for the configured address (a malformed address, a scheme the browser refuses).
\<close>

definition connect :: "bool \<Rightarrow> client \<Rightarrow> client" where
  "connect rejected s =
     (if ws_state s = Some CONNECTING \<or> ws_state s = Some OPEN then s
      else if rejected then scheduleReconnect s
      else
        (let s1 = s\<lparr>sockets := sockets s @
                      [\<lparr>url = serverUrl (config s),
                        auth = (if apiKey (config s) \<noteq> [] then Some (apiKey (config s)) else None),
                        readyState = CONNECTING, attached = True\<rparr>],
                    ws := Some (length (sockets s))\<rparr>
         in snd (set_timer ConnectionTimeout 10000 s1)))"

text \<open>\<^verbatim>\<open>socket.close(code)\<close>: the socket is closing; its close event comes later.\<close>

definition close_socket :: "nat \<Rightarrow> nat option \<Rightarrow> client \<Rightarrow> client" where
  "close_socket i code s =
     emit [Close i code] (s\<lparr>sockets := (sockets s)[i := (sockets s ! i)\<lparr>readyState := CLOSING\<rparr>]\<rparr>)"

definition disconnect :: "client \<Rightarrow> client" where
  "disconnect s =
     (let s1 = clearTimers (s\<lparr>isConnected := False\<rparr>);
          s2 = (case ws s1 of
                  None \<Rightarrow> s1
                | Some i \<Rightarrow>
                    (let s' = s1\<lparr>sockets := (sockets s1)[i := (sockets s1 ! i)\<lparr>attached := False\<rparr>]\<rparr>;
                         s'' = (if ws_state s' = Some OPEN then close_socket i (Some 1000) s' else s')
                     in s''\<lparr>ws := None\<rparr>))
      in notifyConnectionChange ''disconnected'' '''' s2)"

subsection \<open>Listeners\<close>

text \<open>\<^verbatim>\<open>startHeartbeat\<close>\<close>

definition startHeartbeat :: "client \<Rightarrow> client" where
  "startHeartbeat s =
     (case set_timer Heartbeat (heartbeatInterval (config s)) s of
        (i, s') \<Rightarrow> s'\<lparr>heartbeatTimer := Some i\<rparr>)"

definition onOpen :: "nat \<Rightarrow> client \<Rightarrow> client" where
  "onOpen now s =
     (let s1 = startHeartbeat (clearTimers (s\<lparr>isConnected := True, reconnectAttempts := 0\<rparr>));
          s2 = (if apiKey (config s1) \<noteq> []
                then snd (send ''auth'' (JObj [(''apiKey'', JStr (apiKey (config s1)))]) now s1)
                else s1);
          s3 = snd (send ''subscribe''
                 (JObj [(''channels'', JArr [JStr ''telemetry'', JStr ''session'', JStr ''timing'',
                                             JStr ''strategy''])]) now s2)
      in notifyConnectionChange ''connected'' '''' s3)"

definition onClose :: "nat \<Rightarrow> string \<Rightarrow> client \<Rightarrow> client" where
  "onClose code reason s =
     (let s1 = clearTimers (s\<lparr>isConnected := False\<rparr>);
          s2 = (if code \<noteq> 1000 then scheduleReconnect s1 else s1)
      in notifyConnectionChange ''disconnected'' reason s2)"

definition onError :: "client \<Rightarrow> client" where
  "onError s = notifyConnectionChange ''error'' ''Connection error'' s"

text \<open>
  \<^verbatim>\<open>value.k\<close> for a name \<open>k\<close> that is neither an index nor \<^verbatim>\<open>length\<close> nor inherited:
  the own property of an object, \<^verbatim>\<open>undefined\<close> on anything else.
\<close>

definition named :: "jsval \<Rightarrow> string \<Rightarrow> jsval" where
  "named v k = (case v of JObj ps \<Rightarrow> js_get ps k | _ \<Rightarrow> JUndefined)"

text \<open>One handler of the \<^verbatim>\<open>forEach\<close>, inside its own \<^verbatim>\<open>try/catch\<close>.\<close>

definition call_handler :: "jsval \<Rightarrow> jsval \<Rightarrow> client \<Rightarrow> handler \<Rightarrow> client" where
  "call_handler data timestamp s h =
     emit (Invoked (handler_id h) data timestamp
           # (if handler_throws h data timestamp then [HandlerError (handler_id h)] else [])) s"

text \<open>
  \<^verbatim>\<open>onMessage(event)\<close>; \<open>parsed\<close> is what \<^verbatim>\<open>JSON.parse(event.data)\<close> gives, \<open>None\<close>
  when it throws. Destructuring \<^verbatim>\<open>null\<close> throws as well; both are caught by the
  outer \<^verbatim>\<open>try/catch\<close>.
\<close>

definition onMessage :: "jsval option \<Rightarrow> nat \<Rightarrow> client \<Rightarrow> client" where
  "onMessage parsed now s =
     (case parsed of
        None \<Rightarrow> s
      | Some message \<Rightarrow>
          (if message = JNull \<or> message = JUndefined then s
           else
             (let type' = named message ''type''; data = named message ''data'';
                  timestamp = named message ''timestamp'' in
              if type' = JStr ''ping''
              then snd (send ''pong'' (JObj [(''timestamp'', timestamp)]) now s)
              else if type' = JStr ''pong'' then s
              else (case type' of
                      JStr t \<Rightarrow>
                        (case map_of (messageHandlers s) t of
                           Some handlers \<Rightarrow> foldl (call_handler data timestamp) s handlers
                         | None \<Rightarrow> s)
                    | _ \<Rightarrow> s))))"

text \<open>\<^verbatim>\<open>on\<close>, \<^verbatim>\<open>off\<close> and \<^verbatim>\<open>onConnectionChange\<close>.\<close>

definition on :: "string \<Rightarrow> handler \<Rightarrow> client \<Rightarrow> client" where
  "on messageType h s =
     s\<lparr>messageHandlers :=
         (case map_of (messageHandlers s) messageType of
            None \<Rightarrow> messageHandlers s @ [(messageType, [h])]
          | Some handlers \<Rightarrow> AList.update messageType (handlers @ [h]) (messageHandlers s))\<rparr>"

definition onConnectionChange :: "callback \<Rightarrow> client \<Rightarrow> client" where
  "onConnectionChange c s = s\<lparr>connectionCallbacks := connectionCallbacks s @ [c]\<rparr>"

subsection \<open>Events\<close>

text \<open>
  What can happen to a client: a call of \<^verbatim>\<open>connect\<close> or \<^verbatim>\<open>disconnect\<close> by its user,
  a pending timer that fires, and the events of a socket. The browser moves the
  socket's \<^verbatim>\<open>readyState\<close> before it calls a listener, and calls none that was set to
  \<^verbatim>\<open>null\<close>. The flag of \<open>Call_connect\<close> and \<open>Timer_fires\<close> is the one of
  \<open>connect\<close>.
\<close>

datatype event =
    Call_connect bool
  | Call_disconnect
  | Timer_fires nat bool
  | Socket_opens nat
  | Socket_closes nat nat string
  | Socket_errors nat
  | Socket_message nat "jsval option"

definition set_readyState :: "nat \<Rightarrow> ready_state \<Rightarrow> client \<Rightarrow> client" where
  "set_readyState i r s = s\<lparr>sockets := (sockets s)[i := (sockets s ! i)\<lparr>readyState := r\<rparr>]\<rparr>"

text \<open>
  The callbacks given to \<^verbatim>\<open>setTimeout\<close> and \<^verbatim>\<open>setInterval\<close>: the connection timeout
  of \<^verbatim>\<open>connect\<close>, the reconnection of \<^verbatim>\<open>scheduleReconnect\<close>, the ping of
  \<^verbatim>\<open>startHeartbeat\<close>. A timeout is no longer pending once it fires; an interval stays.
\<close>

definition timer_fires :: "timer \<Rightarrow> bool \<Rightarrow> nat \<Rightarrow> client \<Rightarrow> client" where
  "timer_fires t rejected now s =
     (case kind t of
        ConnectionTimeout \<Rightarrow>
          (let s1 = clear_timer (timer_id t) s in
           if ws_state s1 = Some CONNECTING then close_socket (the (ws s1)) None s1 else s1)
      | Reconnect \<Rightarrow> connect rejected (clear_timer (timer_id t) s)
      | Heartbeat \<Rightarrow>
          (if isConnected s
           then snd (send ''ping'' (JObj [(''timestamp'', JNum (Fin (real now)))]) now s)
           else s))"

definition step :: "nat \<Rightarrow> event \<Rightarrow> client \<Rightarrow> client" where
  "step now e s =
     (case e of
        Call_connect rejected \<Rightarrow> connect rejected s
      | Call_disconnect \<Rightarrow> disconnect s
      | Timer_fires i rejected \<Rightarrow>
          (case find (\<lambda>t. timer_id t = i) (timers s) of
             None \<Rightarrow> s
           | Some t \<Rightarrow> timer_fires t rejected now s)
      | Socket_opens i \<Rightarrow>
          (if i < length (sockets s) \<and> readyState (sockets s ! i) = CONNECTING
           then (let s1 = set_readyState i OPEN s in
                 if attached (sockets s ! i) then onOpen now s1 else s1)
           else s)
      | Socket_closes i code reason \<Rightarrow>
          (if i < length (sockets s) \<and> readyState (sockets s ! i) \<noteq> CLOSED
           then (let s1 = set_readyState i CLOSED s in
                 if attached (sockets s ! i) then onClose code reason s1 else s1)
           else s)
      | Socket_errors i \<Rightarrow>
          (if i < length (sockets s) \<and> attached (sockets s ! i) then onError s else s)
      | Socket_message i parsed \<Rightarrow>
          (if i < length (sockets s) \<and> readyState (sockets s ! i) = OPEN
              \<and> attached (sockets s ! i)
           then onMessage parsed now s else s))"

text \<open>A run: events in order, each with the clock's reading when it happens.\<close>

definition run :: "(nat \<times> event) list \<Rightarrow> client \<Rightarrow> client" where
  "run es s = foldl (\<lambda>s (now, e). step now e s) s es"

text \<open>The handler calls and the status notifications in a trace.\<close>

definition invoked :: "effect list \<Rightarrow> (nat \<times> jsval \<times> jsval) list" where
  "invoked es = concat (map (\<lambda>e. case e of Invoked i d t \<Rightarrow> [(i, d, t)] | _ \<Rightarrow> []) es)"

definition notified :: "effect list \<Rightarrow> (nat \<times> string \<times> string) list" where
  "notified es = concat (map (\<lambda>e. case e of Notified i a b \<Rightarrow> [(i, a, b)] | _ \<Rightarrow> []) es)"

text \<open>
  Dispatch as the specification words it: the handlers registered for the type of the
  envelope, in registration order; none for \<^verbatim>\<open>ping\<close> and \<^verbatim>\<open>pong\<close>, which are
  intercepted, none for a frame that does not parse or has no type.
\<close>

definition registered_for :: "(string \<times> handler list) list \<Rightarrow> jsval option \<Rightarrow> handler list" where
  "registered_for table parsed =
     (case parsed of
        None \<Rightarrow> []
      | Some message \<Rightarrow>
          (case named message ''type'' of
             JStr t \<Rightarrow>
               (if t = ''ping'' \<or> t = ''pong'' then []
                else (case map_of table t of None \<Rightarrow> [] | Some handlers \<Rightarrow> handlers))
           | _ \<Rightarrow> []))"

text \<open>The calls an envelope gives rise to: each handler with the envelope's data and timestamp.\<close>

definition calls_for :: "(string \<times> handler list) list \<Rightarrow> jsval option \<Rightarrow> (nat \<times> jsval \<times> jsval) list" where
  "calls_for table parsed =
     (case parsed of
        None \<Rightarrow> []
      | Some message \<Rightarrow>
          map (\<lambda>h. (handler_id h, named message ''data'', named message ''timestamp''))
            (registered_for table parsed))"

text \<open>Envelopes received one after the other.\<close>

definition receive :: "(jsval option \<times> nat) list \<Rightarrow> client \<Rightarrow> client" where
  "receive frames s = foldl (\<lambda>s (parsed, now). onMessage parsed now s) s frames"


text \<open>
  A client that has given up: the attempt count has reached the maximum, no reconnection
  is pending, and no socket that still has the client's listeners is connecting.
\<close>

definition given_up :: "client \<Rightarrow> bool" where
  "given_up s \<longleftrightarrow>
     maxReconnectAttempts (config s) \<le> reconnectAttempts s
     \<and> (\<forall>t \<in> set (timers s). kind t \<noteq> Reconnect)
     \<and> (\<forall>k \<in> set (sockets s). attached k \<longrightarrow> readyState k \<noteq> CONNECTING)"

text \<open>Example parties: a status callback that never throws, a handler that always does.\<close>

definition watcher :: callback where
  "watcher = \<lparr>callback_id = 0, callback_throws = (\<lambda>status details. False)\<rparr>"

definition faulty :: "nat \<Rightarrow> handler" where
  "faulty i = \<lparr>handler_id = i, handler_throws = (\<lambda>data timestamp. True)\<rparr>"


text \<open>
  A user who calls \<^verbatim>\<open>connect\<close> twice with an address the browser rejects, then
  \<^verbatim>\<open>disconnect\<close>.
\<close>

definition rejected_twice :: client where
  "rejected_twice =
     run [(0, Call_connect True), (10, Call_connect True), (20, Call_disconnect)]
       (onConnectionChange watcher
          (new_client \<lparr>opt_serverUrl = Some ''not a url'', opt_apiKey = None,
             opt_reconnectInterval = None, opt_maxReconnectAttempts = None,
             opt_heartbeatInterval = None\<rparr>))"

definition no_options :: options where
  "no_options =
     \<lparr>opt_serverUrl = None, opt_apiKey = None, opt_reconnectInterval = None,
      opt_maxReconnectAttempts = None, opt_heartbeatInterval = None\<rparr>"

section \<open>Properties of the telemetry processor\<close>

lemma new_TelemetryProcessor_constructed: "new_TelemetryProcessor = Returns constructed"
  by code_simp

subsection \<open>Merge\<close>















subsection \<open>Derived values\<close>

lemma js_get_update [simp]:
  "js_get (AList.update k v cd) k' = (if k' = k then v else js_get cd k')"
  by (simp add: js_get_def AList.update_conv')









lemma js_get_cong: "map_of c k = map_of c' k \<Longrightarrow> js_get c k = js_get c' k"
  by (simp add: js_get_def)





subsection \<open>Suggestions\<close>






subsection \<open>History\<close>








lemma push_tires_stray:
  "\<exists>tire \<in> set tires. tire \<notin> {''fl'', ''fr'', ''rl'', ''rr''} \<Longrightarrow>
   snd (push_tires tires temps t) = False"
proof (induction tires arbitrary: t)
  case Nil
  then show ?case by simp
next
  case (Cons tire tires)
  show ?case
  proof (cases "push_ring tire (member temps tire) t")
    case None
    then show ?thesis by simp
  next
    case (Some t')
    then have "tire \<in> {''fl'', ''fr'', ''rl'', ''rr''}"
      by (auto simp: push_ring_def split: if_splits)
    with Cons.prems have "\<exists>x \<in> set tires. x \<notin> {''fl'', ''fr'', ''rl'', ''rr''}" by auto
    from Cons.IH [OF this] Some show ?thesis by simp
  qed
qed

text \<open>
  Any key of \<^verbatim>\<open>tireTemps\<close> that is no corner ends the recording with a TypeError
  before the trimming: the timestamps ring is one longer, whatever its length was.
\<close>

lemma updateHistory_stray_key:
  assumes "js_get (currentData p) ''tireTemps'' = JObj ps"
    and "\<exists>k \<in> set (map fst ps). k \<notin> {''fl'', ''fr'', ''rl'', ''rr''}"
  shows "\<exists>p'. updateHistory timestamp now p = Throws p'
    \<and> length (timestamps (dataHistory p')) = Suc (length (timestamps (dataHistory p)))"
proof -
  let ?h1 = "(dataHistory p)\<lparr>timestamps := timestamps (dataHistory p)
            @ [if truthy timestamp then timestamp else JNum (Fin now)],
         speed := speed (dataHistory p) @ [js_get (currentData p) ''speed''],
         rpm := rpm (dataHistory p) @ [js_get (currentData p) ''rpm''],
         fuelLevel := fuelLevel (dataHistory p) @ [js_get (currentData p) ''fuelLevel''],
         engineTemp := engineTemp (dataHistory p) @ [js_get (currentData p) ''engineTemp'']\<rparr>"
  obtain t b where pt: "push_tires (map fst ps) (JObj ps) (tireTemps ?h1) = (t, b)"
    by (cases "push_tires (map fst ps) (JObj ps) (tireTemps ?h1)")
  with push_tires_stray [OF assms(2), of "JObj ps" "tireTemps ?h1"] have "b = False" by simp
  with pt have "updateHistory timestamp now p = Throws (p\<lparr>dataHistory := ?h1\<lparr>tireTemps := t\<rparr>\<rparr>)"
    unfolding updateHistory_def Let_def assms(1) by simp
  then show ?thesis by simp
qed


section \<open>Properties of the accessors\<close>

text \<open>
  C10, as the code has it. Each accessor returns a new object, a copy one level deep:
  it has the internal object's properties, no cell that existed before the call is
  changed by the call, and none is changed by whatever the caller then does to the
  returned object itself. The objects and arrays the properties refer to are the
  processor's own, not copies.
\<close>

theorem accessors_copy_one_level:
  assumes "getCurrentData this st = (c, st') \<or> getDataHistory this st = (c, st')"
    and "a < length st"
  shows "c = length st \<and> st' ! a = st ! a \<and> overwrite c content st' ! a = st ! a
    \<and> (getCurrentData this st = (c, st') \<longrightarrow>
          own_props st' c = own_props st (currentData_at this))
    \<and> (getDataHistory this st = (c, st') \<longrightarrow>
          own_props st' c = own_props st (dataHistory_at this))"
  using assms
  by (auto simp: getCurrentData_def getDataHistory_def alloc_def overwrite_def own_props_def
      nth_append)

theorem accessors_copy_one_level_witness:
  "fst (getCurrentData (fst (load_processor constructed)) (snd (load_processor constructed)))
     = length (snd (load_processor constructed))
   \<and> 7 < length (snd (load_processor constructed))
   \<and> overwrite (length (snd (load_processor constructed))) (ObjectCell [])
        (snd (getCurrentData (fst (load_processor constructed))
           (snd (load_processor constructed)))) ! 7
      = snd (load_processor constructed) ! 7"
proof -
  let ?h = "fst (load_processor constructed)" and ?st = "snd (load_processor constructed)"
  obtain c st' where g: "getCurrentData ?h ?st = (c, st')"
    by (cases "getCurrentData ?h ?st")
  have "length ?st = 21" by code_simp
  then have a: "7 < length ?st" by simp
  from accessors_copy_one_level [of ?h ?st c st' 7 "ObjectCell []"] g a
  have "c = length ?st" "overwrite c (ObjectCell []) st' ! 7 = ?st ! 7" by blast+
  with g a show ?thesis by simp
qed

text \<open>
  C10 as worded fails on the nested objects and arrays. On the constructed processor,
  assigning to \<^verbatim>\<open>tireTemps.fl\<close> of the returned snapshot changes the processor's own
  tire record from 89 to 999, and pushing onto \<^verbatim>\<open>speed\<close> of the returned history
  puts an element into the processor's own empty ring.
\<close>

theorem nested_mutation_reaches_internal_state:
  "own_tire_fl (load_processor constructed) = Prim (JNum (Fin 89))
   \<and> own_tire_fl (caller_sets_tire (load_processor constructed)) = Prim (JNum (Fin 999))
   \<and> own_speed_ring (load_processor constructed) = []
   \<and> own_speed_ring (caller_pushes_speed (load_processor constructed)) = [Prim (JNum (Fin 1))]"
  by code_simp

section \<open>Properties of the client\<close>

lemmas client_defs =
  run_def step_def timer_fires_def connect_def disconnect_def scheduleReconnect_def onOpen_def
  onClose_def onError_def onMessage_def send_def startHeartbeat_def clearTimers_def
  clear_timer_def set_timer_def close_socket_def set_readyState_def notifyConnectionChange_def
  emit_def ws_state_def new_client_def no_options_def or_default_def on_def
  onConnectionChange_def watcher_def faulty_def call_handler_def named_def js_get_def

lemma emit_fields [simp]:
  "config (emit es s) = config s" "ws (emit es s) = ws s" "isConnected (emit es s) = isConnected s"
  "reconnectAttempts (emit es s) = reconnectAttempts s" "reconnectTimer (emit es s) = reconnectTimer s"
  "heartbeatTimer (emit es s) = heartbeatTimer s" "messageHandlers (emit es s) = messageHandlers s"
  "connectionCallbacks (emit es s) = connectionCallbacks s" "sockets (emit es s) = sockets s"
  "timers (emit es s) = timers s" "next_timer (emit es s) = next_timer s"
  "trace (emit es s) = trace s @ es"
  by (simp_all add: emit_def)

lemma notify_fields [simp]:
  "config (notifyConnectionChange a b s) = config s" "ws (notifyConnectionChange a b s) = ws s"
  "isConnected (notifyConnectionChange a b s) = isConnected s"
  "reconnectAttempts (notifyConnectionChange a b s) = reconnectAttempts s"
  "reconnectTimer (notifyConnectionChange a b s) = reconnectTimer s"
  "heartbeatTimer (notifyConnectionChange a b s) = heartbeatTimer s"
  "messageHandlers (notifyConnectionChange a b s) = messageHandlers s"
  "connectionCallbacks (notifyConnectionChange a b s) = connectionCallbacks s"
  "sockets (notifyConnectionChange a b s) = sockets s"
  "timers (notifyConnectionChange a b s) = timers s"
  "next_timer (notifyConnectionChange a b s) = next_timer s"
  by (simp_all add: notifyConnectionChange_def)

lemma ws_state_emit [simp]: "ws_state (emit es s) = ws_state s"
  by (simp add: ws_state_def split: option.splits)

lemma send_fields [simp]:
  "config (snd (send t d now s)) = config s" "ws (snd (send t d now s)) = ws s"
  "isConnected (snd (send t d now s)) = isConnected s"
  "reconnectAttempts (snd (send t d now s)) = reconnectAttempts s"
  "reconnectTimer (snd (send t d now s)) = reconnectTimer s"
  "heartbeatTimer (snd (send t d now s)) = heartbeatTimer s"
  "messageHandlers (snd (send t d now s)) = messageHandlers s"
  "connectionCallbacks (snd (send t d now s)) = connectionCallbacks s"
  "sockets (snd (send t d now s)) = sockets s" "timers (snd (send t d now s)) = timers s"
  "next_timer (snd (send t d now s)) = next_timer s"
  by (simp_all add: send_def)

subsection \<open>Ping and pong\<close>

text \<open>
  C4. While the client is connected and its socket is open, a received envelope of
  type \<^verbatim>\<open>ping\<close> has exactly one effect: one envelope of type \<^verbatim>\<open>pong\<close> sent on that
  socket, whose payload is the \<^verbatim>\<open>timestamp\<close> of the ping. No handler is called,
  whatever is registered, and nothing else of the client changes.
\<close>

theorem ping_answered_by_one_pong:
  assumes "isConnected s" and "ws s = Some i" and "i < length (sockets s)"
    and "readyState (sockets s ! i) = OPEN"
    and "named message ''type'' = JStr ''ping''"
  shows "onMessage (Some message) now s =
     emit [Sent i (JObj [(''type'', JStr ''pong''), (''timestamp'', JNum (Fin (real now))),
                         (''data'', JObj [(''timestamp'', named message ''timestamp'')])])] s"
proof -
  from assms(5) have "message \<noteq> JNull" "message \<noteq> JUndefined"
    by (auto simp: named_def)
  then show ?thesis using assms
    by (simp add: onMessage_def send_def ws_state_def)
qed

theorem ping_answered_by_one_pong_witness:
  "isConnected (run [(0, Call_connect False), (10, Socket_opens 0)]
       (on ''ping'' (faulty 1) (new_client no_options)))
   \<and> ws (run [(0, Call_connect False), (10, Socket_opens 0)]
       (on ''ping'' (faulty 1) (new_client no_options))) = Some 0
   \<and> ''ping'' \<in> set (map fst (messageHandlers (run [(0, Call_connect False), (10, Socket_opens 0)]
       (on ''ping'' (faulty 1) (new_client no_options)))))
   \<and> trace (onMessage (Some (JObj [(''type'', JStr ''ping''), (''timestamp'', JNum (Fin 7))])) 20
        (run [(0, Call_connect False), (10, Socket_opens 0)]
           (on ''ping'' (faulty 1) (new_client no_options))))
     = trace (run [(0, Call_connect False), (10, Socket_opens 0)]
           (on ''ping'' (faulty 1) (new_client no_options)))
       @ [Sent 0 (JObj [(''type'', JStr ''pong''), (''timestamp'', JNum (Fin 20)),
                        (''data'', JObj [(''timestamp'', JNum (Fin 7))])])]"
proof -
  let ?s = "run [(0, Call_connect False), (10, Socket_opens 0)]
       (on ''ping'' (faulty 1) (new_client no_options))"
  let ?m = "JObj [(''type'', JStr ''ping''), (''timestamp'', JNum (Fin 7))]"
  have h: "isConnected ?s" "ws ?s = Some 0" "0 < length (sockets ?s)"
    "readyState (sockets ?s ! 0) = OPEN" "''ping'' \<in> set (map fst (messageHandlers ?s))"
    by (simp_all add: client_defs)
  have m: "named ?m ''type'' = JStr ''ping''" "named ?m ''timestamp'' = JNum (Fin 7)"
    by (simp_all add: named_def js_get_def)
  from ping_answered_by_one_pong [OF h(1-4) m(1), of 20] m(2)
  have "trace (onMessage (Some ?m) 20 ?s)
        = trace ?s @ [Sent 0 (JObj [(''type'', JStr ''pong''), (''timestamp'', JNum (Fin 20)),
                        (''data'', JObj [(''timestamp'', JNum (Fin 7))])])]"
    by simp
  with h show ?thesis by blast
qed

subsection \<open>Dispatch\<close>

lemma invoked_append [simp]: "invoked (xs @ ys) = invoked xs @ invoked ys"
  by (simp add: invoked_def)

lemma invoked_simps [simp]: "invoked [] = []" "invoked [Sent i m] = []"
  by (simp_all add: invoked_def)

lemma call_handlers:
  "trace (foldl (call_handler d t) s hs) =
     trace s @ concat (map (\<lambda>h. Invoked (handler_id h) d t
                              # (if handler_throws h d t then [HandlerError (handler_id h)] else []))
                         hs)
   \<and> messageHandlers (foldl (call_handler d t) s hs) = messageHandlers s"
  by (induction hs arbitrary: s) (simp_all add: call_handler_def)

lemma invoked_calls:
  "invoked (concat (map (\<lambda>h. Invoked (handler_id h) d t
                              # (if handler_throws h d t then [HandlerError (handler_id h)] else []))
                        hs))
   = map (\<lambda>h. (handler_id h, d, t)) hs"
  by (induction hs) (simp_all add: invoked_def)

lemma onMessage_calls:
  "invoked (trace (onMessage parsed now s)) = invoked (trace s) @ calls_for (messageHandlers s) parsed
   \<and> messageHandlers (onMessage parsed now s) = messageHandlers s"
proof (cases parsed)
  case None
  then show ?thesis by (simp add: onMessage_def calls_for_def)
next
  case (Some message)
  show ?thesis
  proof (cases "message = JNull \<or> message = JUndefined")
    case True
    then show ?thesis using Some
      by (auto simp: onMessage_def calls_for_def registered_for_def named_def)
  next
    case False
    show ?thesis
    proof (cases "named message ''type''")
      case (JStr t)
      then show ?thesis using Some False
        by (simp add: onMessage_def calls_for_def registered_for_def send_def call_handlers
            invoked_calls split: option.splits)
    qed (use Some False in \<open>simp_all add: onMessage_def calls_for_def registered_for_def\<close>)
  qed
qed

lemma receive_handlers: "messageHandlers (receive frames s) = messageHandlers s"
  unfolding receive_def
  by (induction frames arbitrary: s) (simp_all add: onMessage_calls split: prod.splits)

text \<open>
  C8. Through any sequence of received envelopes, the handlers called are exactly those
  registered for each envelope's type, all of them and in registration order, one
  envelope after the other. Whether a handler throws does not enter: its exception is
  caught inside the loop, so the handlers after it for the same envelope, and those of
  every later envelope, are called all the same.
\<close>

theorem every_registered_handler_is_called:
  "invoked (trace (receive frames s))
   = invoked (trace s) @ concat (map (\<lambda>frame. calls_for (messageHandlers s) (fst frame)) frames)"
proof (induction frames rule: rev_induct)
  case Nil
  then show ?case by (simp add: receive_def)
next
  case (snoc frame frames)
  obtain parsed now where f: "frame = (parsed, now)" by (cases frame)
  have "receive (frames @ [frame]) s = onMessage parsed now (receive frames s)"
    by (simp add: receive_def f)
  then show ?case using snoc onMessage_calls [of parsed now "receive frames s"]
    by (simp add: receive_handlers f)
qed

text \<open>
  Two handlers for \<^verbatim>\<open>telemetry\<close> and one for \<^verbatim>\<open>session\<close>, all of which throw: an
  envelope of each type reaches all three.
\<close>

theorem every_registered_handler_is_called_witness:
  "handler_throws (faulty 1) (JNum (Fin 1)) (JNum (Fin 5))
   \<and> invoked (trace (receive
        [(Some (JObj [(''type'', JStr ''telemetry''), (''data'', JNum (Fin 1)),
                      (''timestamp'', JNum (Fin 5))]), 10),
         (Some (JObj [(''type'', JStr ''session''), (''data'', JNum (Fin 2)),
                      (''timestamp'', JNum (Fin 6))]), 20)]
        (on ''session'' (faulty 3) (on ''telemetry'' (faulty 2) (on ''telemetry'' (faulty 1)
           (new_client no_options))))))
     = [(1, JNum (Fin 1), JNum (Fin 5)), (2, JNum (Fin 1), JNum (Fin 5)),
        (3, JNum (Fin 2), JNum (Fin 6))]"
  unfolding every_registered_handler_is_called
  by (simp add: client_defs calls_for_def registered_for_def invoked_def)

subsection \<open>Backoff\<close>

lemma scheduleReconnect_below:
  assumes "reconnectAttempts s < maxReconnectAttempts (config s)"
  shows "timers (scheduleReconnect s) =
           timers s @ [\<lparr>timer_id = next_timer s, kind = Reconnect,
                        delay = min (reconnectInterval (config s) * Suc (reconnectAttempts s)) 30000\<rparr>]"
    and "reconnectTimer (scheduleReconnect s) = Some (next_timer s)"
    and "reconnectAttempts (scheduleReconnect s) = Suc (reconnectAttempts s)"
    and "config (scheduleReconnect s) = config s"
  using assms by (simp_all add: scheduleReconnect_def set_timer_def Let_def)

text \<open>
  C5. The \<open>k\<close>-th consecutive call of \<^verbatim>\<open>scheduleReconnect\<close> (the attempt count
  stands at \<open>k - 1\<close>, below the maximum) sets the count to \<open>k\<close> and schedules the
  reconnection after min (reconnectInterval * k, 30000) milliseconds, keeping the
  timer in \<^verbatim>\<open>reconnectTimer\<close>. The delay never exceeds 30000, and the call that follows
  it in a state of the same configuration schedules a delay at least as long. A client
  constructed without options has the interval 3000.
\<close>

theorem backoff_delay:
  assumes "1 \<le> k" and "reconnectAttempts s = k - 1" and "k \<le> maxReconnectAttempts (config s)"
    and "config s' = config s" and "reconnectAttempts s' = k"
    and "k < maxReconnectAttempts (config s)"
  shows "timers (scheduleReconnect s) =
           timers s @ [\<lparr>timer_id = next_timer s, kind = Reconnect,
                        delay = min (reconnectInterval (config s) * k) 30000\<rparr>]
     \<and> reconnectTimer (scheduleReconnect s) = Some (next_timer s)
     \<and> reconnectAttempts (scheduleReconnect s) = k
     \<and> delay (last (timers (scheduleReconnect s))) \<le> 30000
     \<and> delay (last (timers (scheduleReconnect s))) \<le> delay (last (timers (scheduleReconnect s')))
     \<and> reconnectInterval (config (new_client no_options)) = 3000"
proof -
  from assms(1-3) have b: "reconnectAttempts s < maxReconnectAttempts (config s)"
    and k: "Suc (reconnectAttempts s) = k" by simp_all
  from assms(4-6) have b': "reconnectAttempts s' < maxReconnectAttempts (config s')" by simp
  have "reconnectInterval (config s) * k \<le> reconnectInterval (config s) * Suc k" by simp
  then have "min (reconnectInterval (config s) * k) 30000
             \<le> min (reconnectInterval (config s) * Suc k) 30000"
    by (simp add: min_le_iff_disj)
  then show ?thesis
    using scheduleReconnect_below [OF b] scheduleReconnect_below(1) [OF b'] k assms(4,5)
    by (simp add: new_client_def no_options_def or_default_def)
qed

theorem backoff_delay_witness:
  "reconnectAttempts (new_client no_options) = 1 - 1
   \<and> config (scheduleReconnect (new_client no_options)) = config (new_client no_options)
   \<and> reconnectAttempts (scheduleReconnect (new_client no_options)) = 1
   \<and> delay (last (timers (scheduleReconnect (new_client no_options)))) = 3000
   \<and> delay (last (timers (scheduleReconnect (scheduleReconnect (new_client no_options))))) = 6000
   \<and> delay (last (timers (scheduleReconnect (new_client no_options))))
       \<le> delay (last (timers (scheduleReconnect (scheduleReconnect (new_client no_options)))))"
proof -
  let ?s = "new_client no_options" and ?s' = "scheduleReconnect (new_client no_options)"
  have h: "(1::nat) \<le> 1" "reconnectAttempts ?s = 1 - 1" "1 \<le> maxReconnectAttempts (config ?s)"
    "config ?s' = config ?s" "reconnectAttempts ?s' = 1" "1 < maxReconnectAttempts (config ?s)"
    by (simp_all add: client_defs)
  have e: "delay (last (timers ?s')) = 3000" "delay (last (timers (scheduleReconnect ?s'))) = 6000"
    by (simp_all add: client_defs)
  from backoff_delay [OF h] e h show ?thesis by simp
qed

subsection \<open>Giving up\<close>

lemma clearTimers_fields [simp]:
  "config (clearTimers s) = config s" "ws (clearTimers s) = ws s"
  "isConnected (clearTimers s) = isConnected s"
  "reconnectAttempts (clearTimers s) = reconnectAttempts s"
  "sockets (clearTimers s) = sockets s" "trace (clearTimers s) = trace s"
  "connectionCallbacks (clearTimers s) = connectionCallbacks s"
  "reconnectTimer (clearTimers s) = None" "heartbeatTimer (clearTimers s) = None"
  by (simp_all add: clearTimers_def clear_timer_def Let_def split: option.splits)


lemma notified_append [simp]: "notified (xs @ ys) = notified xs @ notified ys"
  by (simp add: notified_def)









lemma given_up_emit [simp]: "given_up (emit es s) = given_up s"
  by (simp add: given_up_def)

lemma given_up_notify [simp]: "given_up (notifyConnectionChange a b s) = given_up s"
  by (simp add: given_up_def)

lemma given_up_isConnected [simp]: "given_up (s\<lparr>isConnected := b\<rparr>) = given_up s"
  by (simp add: given_up_def)





lemma length_sockets_simps [simp]:
  "length (sockets (set_readyState i r s)) = length (sockets s)"
  "sockets (clear_timer j s) = sockets s"
  by (simp_all add: set_readyState_def clear_timer_def)







subsection \<open>Disconnecting\<close>

text \<open>
  \<^verbatim>\<open>disconnect\<close> clears the two timers whose ids the client holds. When those are all
  the reconnection and heartbeat timers there are, what stays pending are connection
  timeouts, and a timer that fires after \<^verbatim>\<open>disconnect\<close> does nothing that shows:
  \<^verbatim>\<open>this.ws\<close> is \<^verbatim>\<open>null\<close>.
\<close>

lemma disconnect_fields:
  "ws (disconnect s) = None" "isConnected (disconnect s) = False"
  "timers (disconnect s) = timers (clearTimers s)"
  by (simp_all add: disconnect_def Let_def clearTimers_def clear_timer_def close_socket_def
      split: option.splits)

lemma timers_clearTimers:
  "timers (clearTimers s) =
     filter (\<lambda>t. Some (timer_id t) \<noteq> reconnectTimer s \<and> Some (timer_id t) \<noteq> heartbeatTimer s)
       (timers s)"
  by (auto simp: clearTimers_def clear_timer_def Let_def split: option.splits
      intro: filter_cong)

lemma silent_after_disconnect:
  assumes "\<forall>t \<in> set (timers s). kind t = Reconnect \<longrightarrow> reconnectTimer s = Some (timer_id t)"
    and "\<forall>t \<in> set (timers s). kind t = Heartbeat \<longrightarrow> heartbeatTimer s = Some (timer_id t)"
  shows "(\<forall>t \<in> set (timers (disconnect s)). kind t = ConnectionTimeout)
    \<and> trace (step now (Timer_fires i rejected) (disconnect s)) = trace (disconnect s)"
proof -
  have only: "\<forall>t \<in> set (timers (disconnect s)). kind t = ConnectionTimeout"
  proof
    fix t assume "t \<in> set (timers (disconnect s))"
    then have "t \<in> set (timers s)" "Some (timer_id t) \<noteq> reconnectTimer s"
      "Some (timer_id t) \<noteq> heartbeatTimer s"
      by (simp_all add: disconnect_fields timers_clearTimers)
    with assms show "kind t = ConnectionTimeout" by (cases "kind t") auto
  qed
  have "trace (step now (Timer_fires i rejected) (disconnect s)) = trace (disconnect s)"
  proof (cases "find (\<lambda>t. timer_id t = i) (timers (disconnect s))")
    case None
    then show ?thesis by (simp add: step_def)
  next
    case (Some t)
    then have "t \<in> set (timers (disconnect s))" by (auto simp: find_Some_iff)
    with only have "kind t = ConnectionTimeout" by blast
    then show ?thesis using Some
      by (simp add: step_def timer_fires_def Let_def ws_state_def clear_timer_def
          disconnect_fields)
  qed
  with only show ?thesis by blast
qed

lemma dec_small:
  "dec (Suc 0) = ''1''" "dec (Suc (Suc 0)) = ''2''" "dec (Suc (Suc (Suc 0))) = ''3''"
  by code_simp+

text \<open>
  C7 fails on the code. \<^verbatim>\<open>scheduleReconnect\<close> stores each new timer over the one that
  \<^verbatim>\<open>reconnectTimer\<close> held, without clearing it. After two rejected calls of
  \<^verbatim>\<open>connect\<close> the first reconnection timer is pending and forgotten;
  \<^verbatim>\<open>disconnect\<close> clears only the second. When the first fires, 3000 ms after it was
  set, the client tries to connect, notifies the status callback of
  \<^verbatim>\<open>reconnecting\<close> and sets a further timer.
\<close>

theorem timer_survives_disconnect:
  "timers rejected_twice = [\<lparr>timer_id = 1, kind = Reconnect, delay = 3000\<rparr>]
   \<and> reconnectTimer rejected_twice = None
   \<and> trace rejected_twice =
       [Notified 0 ''reconnecting'' ''Attempt 1'', Notified 0 ''reconnecting'' ''Attempt 2'',
        Notified 0 ''disconnected'' []]
   \<and> trace (step 3000 (Timer_fires 1 True) rejected_twice) =
       trace rejected_twice @ [Notified 0 ''reconnecting'' ''Attempt 3'']
   \<and> timers (step 3000 (Timer_fires 1 True) rejected_twice) =
       [\<lparr>timer_id = 3, kind = Reconnect, delay = 9000\<rparr>]"
  by (simp add: rejected_twice_def client_defs dec_small)

text \<open>
  The connection timeout is never cleared either, since no field holds its id: it is
  still pending after \<^verbatim>\<open>connect\<close> and \<^verbatim>\<open>disconnect\<close>.
\<close>

lemma connection_timeout_survives_disconnect:
  "timers (run [(0, Call_connect False), (10, Call_disconnect)] (new_client no_options))
   = [\<lparr>timer_id = 1, kind = ConnectionTimeout, delay = 10000\<rparr>]"
  by (simp add: client_defs)

end
